theory Spec2Isabelle
  imports Main "HOL-Library.Multiset"
begin

section \<open>Text: character classes and the string helpers of \<^verbatim>\<open>bot.py\<close>\<close>

text \<open>
  A Python \<^verbatim>\<open>str\<close> is modelled as a \<^typ>\<open>string\<close>, one \<^typ>\<open>char\<close> per character.
  The character classes below are those of Python on ASCII text: \<^verbatim>\<open>\s\<close> and
  \<^verbatim>\<open>str.strip()\<close> use the same whitespace set (TAB, LF, VT, FF, CR, FS, GS, RS, US and
  the space), \<^verbatim>\<open>\d\<close> is \<^verbatim>\<open>0\<close>..\<^verbatim>\<open>9\<close>, and \<^verbatim>\<open>str.upper()\<close> / \<^verbatim>\<open>str.lower()\<close>
  change the 26 letters. Characters above code 127 are treated as ordinary
  non-whitespace, non-digit characters without case.
\<close>

definition is_space :: "char \<Rightarrow> bool" where
  "is_space c = (let n = (of_char c :: nat) in (9 \<le> n \<and> n \<le> 13) \<or> (28 \<le> n \<and> n \<le> 32))"

definition is_digit :: "char \<Rightarrow> bool" where
  "is_digit c = (let n = (of_char c :: nat) in 48 \<le> n \<and> n \<le> 57)"

definition upper_char :: "char \<Rightarrow> char" where
  "upper_char c = (let n = (of_char c :: nat) in if 97 \<le> n \<and> n \<le> 122 then char_of (n - 32) else c)"

definition lower_char :: "char \<Rightarrow> char" where
  "lower_char c = (let n = (of_char c :: nat) in if 65 \<le> n \<and> n \<le> 90 then char_of (n + 32) else c)"

definition upper :: "string \<Rightarrow> string" where
  "upper s = map upper_char s"

definition lower :: "string \<Rightarrow> string" where
  "lower s = map lower_char s"

text \<open>\<^verbatim>\<open>s.strip()\<close>: whitespace is removed from both ends.\<close>

definition lstrip :: "string \<Rightarrow> string" where
  "lstrip s = dropWhile is_space s"

definition rstrip :: "string \<Rightarrow> string" where
  "rstrip s = rev (dropWhile is_space (rev s))"

definition strip :: "string \<Rightarrow> string" where
  "strip s = rstrip (lstrip s)"

text \<open>\<^verbatim>\<open>re.sub(r"\s+", " ", s)\<close>: every maximal run of whitespace becomes one space.\<close>

function collapse :: "string \<Rightarrow> string" where
  "collapse [] = []"
| "collapse (c # s) =
     (if is_space c then CHR '' '' # collapse (dropWhile is_space s) else c # collapse s)"
  by pat_completeness auto
termination
  by (relation "measure length") (auto simp: length_dropWhile_le less_Suc_eq_le)

section \<open>The four token patterns of \<^verbatim>\<open>parse_task\<close>\<close>

text \<open>
  \<^verbatim>\<open>re.search(p, raw)\<close> tries the pattern at every start position from left to right
  (the position after the last character included) and returns the first match.
  A matcher gets the text from a start position on and returns the captured group(s)
  with the text after the match. The result of the search is
  \<^verbatim>\<open>(raw[:m.start()], groups, raw[m.end():])\<close>.
\<close>

fun re_search :: "(string \<Rightarrow> ('g \<times> string) option) \<Rightarrow> string \<Rightarrow> (string \<times> 'g \<times> string) option" where
  "re_search m [] = (case m [] of None \<Rightarrow> None | Some (g, post) \<Rightarrow> Some ([], g, post))"
| "re_search m (c # s) =
     (case m (c # s) of
        Some (g, post) \<Rightarrow> Some ([], g, post)
      | None \<Rightarrow> (case re_search m s of
                   None \<Rightarrow> None
                 | Some (pre, g, post) \<Rightarrow> Some (c # pre, g, post)))"

text \<open>
  The patterns are built from greedy pieces whose character classes are disjoint from
  what follows them, so giving characters back never helps a failed match: \<^verbatim>\<open>\s*\<close>
  takes all the whitespace there is, \<^verbatim>\<open>\S+\<close> the whole run of non-whitespace.
\<close>

text \<open>\<^verbatim>\<open>@(\S+)\<close>\<close>

fun m_tag :: "string \<Rightarrow> (string \<times> string) option" where
  "m_tag (c # s) =
     (if c = CHR ''@'' \<and> takeWhile (\<lambda>x. \<not> is_space x) s \<noteq> []
      then Some (takeWhile (\<lambda>x. \<not> is_space x) s, dropWhile (\<lambda>x. \<not> is_space x) s)
      else None)"
| "m_tag [] = None"

text \<open>\<^verbatim>\<open>\|e\s*(\S+)\<close> with \<^verbatim>\<open>re.IGNORECASE\<close>\<close>

fun m_project :: "string \<Rightarrow> (string \<times> string) option" where
  "m_project (c # e # s) =
     (if c = CHR ''|'' \<and> (e = CHR ''e'' \<or> e = CHR ''E'')
         \<and> takeWhile (\<lambda>x. \<not> is_space x) (dropWhile is_space s) \<noteq> []
      then Some (takeWhile (\<lambda>x. \<not> is_space x) (dropWhile is_space s),
                 dropWhile (\<lambda>x. \<not> is_space x) (dropWhile is_space s))
      else None)"
| "m_project _ = None"

text \<open>\<^verbatim>\<open>\|p\s*([UuNn])\s*(\d)\<close>\<close>

fun m_priority :: "string \<Rightarrow> ((char \<times> char) \<times> string) option" where
  "m_priority (c # p # s) =
     (if c = CHR ''|'' \<and> p = CHR ''p'' then
        (case dropWhile is_space s of
           l # s' \<Rightarrow>
             (if l \<in> set ''UuNn'' then
                (case dropWhile is_space s' of
                   d # post \<Rightarrow> (if is_digit d then Some ((l, d), post) else None)
                 | [] \<Rightarrow> None)
              else None)
         | [] \<Rightarrow> None)
      else None)"
| "m_priority _ = None"

text \<open>\<^verbatim>\<open>\|f\s*(\d{6})\<close>\<close>

fun m_date :: "string \<Rightarrow> (string \<times> string) option" where
  "m_date (c # f # s) =
     (if c = CHR ''|'' \<and> f = CHR ''f''
         \<and> 6 \<le> length (dropWhile is_space s) \<and> list_all is_digit (take 6 (dropWhile is_space s))
      then Some (take 6 (dropWhile is_space s), drop 6 (dropWhile is_space s))
      else None)"
| "m_date _ = None"

text \<open>
  Each block of \<^verbatim>\<open>parse_task\<close>: on a match the field is set and the match is cut out
  (\<^verbatim>\<open>raw = raw[:m.start()] + raw[m.end():]\<close>); otherwise the field stays \<^verbatim>\<open>None\<close>.
\<close>

definition extract_tag :: "string \<Rightarrow> string option \<times> string" where
  "extract_tag raw =
     (case re_search m_tag raw of
        Some (pre, g, post) \<Rightarrow> (Some (upper g), pre @ post)
      | None \<Rightarrow> (None, raw))"

definition extract_project :: "string \<Rightarrow> string option \<times> string" where
  "extract_project raw =
     (case re_search m_project raw of
        Some (pre, g, post) \<Rightarrow> (Some g, pre @ post)
      | None \<Rightarrow> (None, raw))"

definition extract_priority :: "string \<Rightarrow> string option \<times> string" where
  "extract_priority raw =
     (case re_search m_priority raw of
        Some (pre, (l, d), post) \<Rightarrow> (Some (upper [l] @ [d]), pre @ post)
      | None \<Rightarrow> (None, raw))"

definition extract_date :: "string \<Rightarrow> string option \<times> string" where
  "extract_date raw =
     (case re_search m_date raw of
        Some (pre, g, post) \<Rightarrow> (Some g, pre @ post)
      | None \<Rightarrow> (None, raw))"

record parsed =
  title :: string
  tag :: "string option"
  project :: "string option"
  priority_str :: "string option"
  date_str :: "string option"

definition parse_task :: "string \<Rightarrow> parsed" where
  "parse_task text =
     (let raw = strip text;
          (tag, raw) = extract_tag raw;
          (project, raw) = extract_project raw;
          (priority_str, raw) = extract_priority raw;
          (date_str, raw) = extract_date raw
      in \<lparr>title = strip (collapse raw), tag = tag, project = project,
          priority_str = priority_str, date_str = date_str\<rparr>)"

section \<open>Scoring\<close>

datatype py_error = IndexError | ValueError | KeyError

text \<open>
  \<^verbatim>\<open>int(s)\<close> on ASCII text: surrounding whitespace is ignored, one sign is allowed,
  and the digits may be grouped by single underscores. \<^verbatim>\<open>None\<close> stands for
  \<^verbatim>\<open>ValueError\<close>. (The interpreter's cap on the number of digits, 4300 by default,
  is beyond the length of a chat message and is not modelled.)
\<close>

definition digit_val :: "char \<Rightarrow> int" where
  "digit_val c = int (of_char c) - 48"

definition dec :: "string \<Rightarrow> int" where
  "dec s = foldl (\<lambda>n c. 10 * n + digit_val c) 0 s"

fun int_body :: "string \<Rightarrow> bool" where
  "int_body [] = False"
| "int_body [c] = is_digit c"
| "int_body (c # d # s) =
     (is_digit c \<and> (if d = CHR ''_'' then int_body s else int_body (d # s)))"

definition py_int :: "string \<Rightarrow> int option" where
  "py_int s =
     (case strip s of
        [] \<Rightarrow> None
      | c # r \<Rightarrow>
          (if c = CHR ''-'' then (if int_body r then Some (- dec (filter is_digit r)) else None)
           else if c = CHR ''+'' then (if int_body r then Some (dec (filter is_digit r)) else None)
           else if int_body (c # r) then Some (dec (filter is_digit (c # r))) else None))"

text \<open>Calendar dates, with the ordinal of \<^verbatim>\<open>date.toordinal()\<close> (1 January of year 1 is day 1).\<close>

record date =
  year :: int
  month :: int
  day :: int

definition is_leap :: "int \<Rightarrow> bool" where
  "is_leap y = (y mod 4 = 0 \<and> (y mod 100 \<noteq> 0 \<or> y mod 400 = 0))"

definition days_in_month :: "int \<Rightarrow> int \<Rightarrow> int" where
  "days_in_month y m =
     (if m = 2 \<and> is_leap y then 29
      else [31, 28, 31, 30, 31, 30, 31, 31, 30, 31, 30, 31] ! nat (m - 1))"

definition days_before_year :: "int \<Rightarrow> int" where
  "days_before_year y = (y - 1) * 365 + (y - 1) div 4 - (y - 1) div 100 + (y - 1) div 400"

definition days_before_month :: "int \<Rightarrow> int \<Rightarrow> int" where
  "days_before_month y m =
     [0, 31, 59, 90, 120, 151, 181, 212, 243, 273, 304, 334] ! nat (m - 1)
       + (if m > 2 \<and> is_leap y then 1 else 0)"

definition toordinal :: "date \<Rightarrow> int" where
  "toordinal d = days_before_year (year d) + days_before_month (year d) (month d) + day d"

text \<open>
  \<^verbatim>\<open>datetime.strptime(s, "%d%m%y").date()\<close>. The library turns the format into the
  regular expression
  \<^verbatim>\<open>(?P<d>3[0-1]|[1-2]\d|0[1-9]|[1-9]| [1-9])(?P<m>1[0-2]|0[1-9]|[1-9])(?P<y>\d\d)\<close>,
  matches it at the start of the text, and raises \<^verbatim>\<open>ValueError\<close> when there is no
  match, when text is left after the match, or when the day does not exist in the
  month. Each group below lists its ways to match in the order the alternatives are
  tried; the first complete match is the one the library takes. Years 00..68 are
  20xx, 69..99 are 19xx. \<^verbatim>\<open>None\<close> stands for \<^verbatim>\<open>ValueError\<close>.
\<close>

definition re_d :: "string \<Rightarrow> (string \<times> string) list" where
  "re_d s =
     (case s of
        a # b # r \<Rightarrow>
          (if a = CHR ''3'' \<and> b \<in> set ''01'' then [([a, b], r)] else []) @
          (if a \<in> set ''12'' \<and> is_digit b then [([a, b], r)] else []) @
          (if a = CHR ''0'' \<and> b \<in> set ''123456789'' then [([a, b], r)] else [])
      | _ \<Rightarrow> []) @
     (case s of a # r \<Rightarrow> (if a \<in> set ''123456789'' then [([a], r)] else []) | _ \<Rightarrow> []) @
     (case s of
        a # b # r \<Rightarrow> (if a = CHR '' '' \<and> b \<in> set ''123456789'' then [([a, b], r)] else [])
      | _ \<Rightarrow> [])"

definition re_m :: "string \<Rightarrow> (string \<times> string) list" where
  "re_m s =
     (case s of
        a # b # r \<Rightarrow>
          (if a = CHR ''1'' \<and> b \<in> set ''012'' then [([a, b], r)] else []) @
          (if a = CHR ''0'' \<and> b \<in> set ''123456789'' then [([a, b], r)] else [])
      | _ \<Rightarrow> []) @
     (case s of a # r \<Rightarrow> (if a \<in> set ''123456789'' then [([a], r)] else []) | _ \<Rightarrow> [])"

definition re_y :: "string \<Rightarrow> (string \<times> string) list" where
  "re_y s =
     (case s of
        a # b # r \<Rightarrow> (if is_digit a \<and> is_digit b then [([a, b], r)] else [])
      | _ \<Rightarrow> [])"

definition strptime_ddmmyy :: "string \<Rightarrow> date option" where
  "strptime_ddmmyy s =
     (case concat (map (\<lambda>(d, r1). concat (map (\<lambda>(m, r2). map (\<lambda>(y, r3). (d, m, y, r3)) (re_y r2))
                                             (re_m r1)))
                       (re_d s)) of
        [] \<Rightarrow> None
      | (d, m, y, rest) # _ \<Rightarrow>
          (if rest \<noteq> [] then None
           else
             (let yy = dec y;
                  yr = (if yy \<le> 68 then yy + 2000 else yy + 1900);
                  mo = dec m;
                  dy = dec (strip d)
              in if 1 \<le> dy \<and> dy \<le> days_in_month yr mo
                 then Some \<lparr>year = yr, month = mo, day = dy\<rparr> else None)))"

text \<open>\<^verbatim>\<open>date.today()\<close> is the parameter \<open>today\<close>.\<close>

definition calc_date_value :: "date \<Rightarrow> string option \<Rightarrow> int" where
  "calc_date_value today ds =
     (case ds of
        None \<Rightarrow> 0
      | Some s \<Rightarrow>
          (if s = [] then 0
           else
             (case strptime_ddmmyy s of
                None \<Rightarrow> 0
              | Some d \<Rightarrow>
                  (let delta = toordinal d - toordinal today
                   in if delta \<le> 0 then 3
                      else if delta \<le> 3 then 3
                      else if delta \<le> 15 then 2
                      else 1))))"

text \<open>
  \<^verbatim>\<open>priority_str[1]\<close> raises \<^verbatim>\<open>IndexError\<close> on a one-character string, and \<^verbatim>\<open>int\<close>
  raises \<^verbatim>\<open>ValueError\<close> when that character is not a digit.
\<close>

definition calc_priority_value :: "string option \<Rightarrow> py_error + int" where
  "calc_priority_value ps =
     (case ps of
        None \<Rightarrow> Inr 0
      | Some [] \<Rightarrow> Inr 0
      | Some [c] \<Rightarrow> Inl IndexError
      | Some (c # d # _) \<Rightarrow>
          (let urgency = (if c = CHR ''U'' then 1 else - 1)
           in case py_int [d] of
                None \<Rightarrow> Inl ValueError
              | Some num \<Rightarrow> Inr (urgency + num)))"

definition TAG_VALUES :: "(string \<times> int) list" where
  "TAG_VALUES = [(''FGR'', 3), (''CETS'', 3), (''CS'', 2)]"

definition calc_total_score :: "date \<Rightarrow> string option \<Rightarrow> string option \<Rightarrow> string option \<Rightarrow> py_error + int" where
  "calc_total_score today tg ps ds =
     (let tag_val = (case tg of
                       None \<Rightarrow> 0
                     | Some t \<Rightarrow> (if t = [] then 0
                                  else (case map_of TAG_VALUES t of Some v \<Rightarrow> v | None \<Rightarrow> 0)))
      in case calc_priority_value ps of
           Inl e \<Rightarrow> Inl e
         | Inr pv \<Rightarrow> Inr (tag_val + pv + calc_date_value today ds))"

section \<open>The task table and the undo slots\<close>

text \<open>
  A row of the table \<^verbatim>\<open>tasks\<close>: the five parsed fields, the storage id (column
  \<^verbatim>\<open>id\<close>), the owner, the task number (column \<^verbatim>\<open>task_id\<close>) and the completion
  flag. \<open>score\<close> is the key \<^verbatim>\<open>_score\<close> that \<^verbatim>\<open>get_tasks\<close> adds to the rows it returns;
  it is absent (\<open>None\<close>) in the table.
\<close>

record task = parsed +
  row_id :: int
  user_id :: int
  task_id :: int
  "done" :: bool
  score :: "int option"

text \<open>The editable columns, and a one-entry dictionary \<^verbatim>\<open>{column: value}\<close>.\<close>

datatype column = title_col | tag_col | project_col | priority_str_col | date_str_col

datatype col =
    Title string
  | Tag "string option"
  | Project "string option"
  | PriorityStr "string option"
  | DateStr "string option"

text \<open>The dictionaries stored in \<^verbatim>\<open>ctx.bot_data["undo_<user>"]\<close>, by their \<^verbatim>\<open>action\<close>.\<close>

datatype undo =
    UCreate int
  | UDone int
  | UDoneAll "int list"
  | UDelete task
  | UEdit int col

record state =
  tasks :: "task list"
  next_row_id :: int
  bot_data :: "int \<Rightarrow> undo option"

text \<open>
  Modelled from the spec: the record store behind the client \<^verbatim>\<open>sb\<close> is an external
  service and not part of the source. Its table is the list of rows in the order the
  store returns them; a query filters the list, an insert appends, an update or a
  delete by \<^verbatim>\<open>id\<close> acts on the rows with that id. A row inserted without an id gets
  \<open>next_row_id\<close>.
\<close>

definition sb_update_done :: "int \<Rightarrow> bool \<Rightarrow> task list \<Rightarrow> task list" where
  "sb_update_done rid b ts = map (\<lambda>r. if row_id r = rid then r\<lparr>done := b\<rparr> else r) ts"

definition set_col :: "col \<Rightarrow> task \<Rightarrow> task" where
  "set_col c r =
     (case c of
        Title v \<Rightarrow> r\<lparr>title := v\<rparr>
      | Tag v \<Rightarrow> r\<lparr>tag := v\<rparr>
      | Project v \<Rightarrow> r\<lparr>project := v\<rparr>
      | PriorityStr v \<Rightarrow> r\<lparr>priority_str := v\<rparr>
      | DateStr v \<Rightarrow> r\<lparr>date_str := v\<rparr>)"

definition sb_update :: "int \<Rightarrow> col \<Rightarrow> task list \<Rightarrow> task list" where
  "sb_update rid c ts = map (\<lambda>r. if row_id r = rid then set_col c r else r) ts"


definition sb_insert :: "task \<Rightarrow> task list \<Rightarrow> task list" where
  "sb_insert r ts = ts @ [r]"

text \<open>
  \<^verbatim>\<open>select("*").eq("user_id", user_id).eq("task_id", task_id).eq("done", False)\<close>,
  the query of \<^verbatim>\<open>cmd_done\<close>, \<^verbatim>\<open>cmd_del\<close> and \<^verbatim>\<open>cmd_edit\<close>.
\<close>

definition select_active :: "int \<Rightarrow> int \<Rightarrow> task list \<Rightarrow> task list" where
  "select_active uid tid ts = filter (\<lambda>r. user_id r = uid \<and> task_id r = tid \<and> \<not> done r) ts"

definition next_available_id :: "int \<Rightarrow> state \<Rightarrow> int" where
  "next_available_id uid st =
     (let rows = filter (\<lambda>r. user_id r = uid) (tasks st);
          used = set (map task_id rows)
      in case List.find (\<lambda>i. i \<notin> used) [1..99] of Some i \<Rightarrow> i | None \<Rightarrow> 99)"

text \<open>
  \<^verbatim>\<open>get_tasks\<close>. The store's case-insensitive pattern match \<^verbatim>\<open>ilike\<close> is the parameter
  \<open>ilike pattern value\<close>; a row without a project does not match. The loop sets
  \<^verbatim>\<open>_score\<close> row by row and stops at the first row whose score raises.
  \<^verbatim>\<open>rows.sort(key=..., reverse=True)\<close> is the library's stable sort: descending by key,
  rows with equal keys in their previous order.
\<close>

fun set_scores :: "date \<Rightarrow> task list \<Rightarrow> py_error + task list" where
  "set_scores today [] = Inr []"
| "set_scores today (r # rs) =
     (case calc_total_score today (tag r) (priority_str r) (date_str r) of
        Inl e \<Rightarrow> Inl e
      | Inr v \<Rightarrow> (case set_scores today rs of
                    Inl e \<Rightarrow> Inl e
                  | Inr rs' \<Rightarrow> Inr (r\<lparr>score := Some v\<rparr> # rs')))"

definition score_key :: "task \<Rightarrow> int" where
  "score_key r = (case score r of Some v \<Rightarrow> v | None \<Rightarrow> 0)"

definition sort_reverse :: "('a \<Rightarrow> int) \<Rightarrow> 'a list \<Rightarrow> 'a list" where
  "sort_reverse k xs = sort_key (\<lambda>x. - k x) xs"

definition select_tasks :: "(string \<Rightarrow> string \<Rightarrow> bool) \<Rightarrow> int \<Rightarrow> string option \<Rightarrow> string option \<Rightarrow> task list \<Rightarrow> task list" where
  "select_tasks ilike uid tg pj ts =
     filter (\<lambda>r. user_id r = uid \<and> \<not> done r
                \<and> (case tg of None \<Rightarrow> True
                              | Some t \<Rightarrow> t = [] \<or> tag r = Some (upper t))
                \<and> (case pj of None \<Rightarrow> True
                              | Some p \<Rightarrow> p = [] \<or>
                                  (case project r of None \<Rightarrow> False
                                                   | Some x \<Rightarrow> ilike (''%'' @ p @ ''%'') x))) ts"

definition get_tasks :: "(string \<Rightarrow> string \<Rightarrow> bool) \<Rightarrow> date \<Rightarrow> int \<Rightarrow> string option \<Rightarrow> string option \<Rightarrow> state \<Rightarrow> py_error + task list" where
  "get_tasks ilike today uid tg pj st =
     (case set_scores today (select_tasks ilike uid tg pj (tasks st)) of
        Inl e \<Rightarrow> Inl e
      | Inr rows \<Rightarrow> Inr (sort_reverse score_key rows))"

section \<open>The handlers\<close>

text \<open>
  The messages sent back, by their content:
  \<open>NoReply\<close> nothing is sent;
  \<open>TitleRequired\<close> "La tarea necesita un titulo.";
  \<open>Created\<close> the confirmation of a new task with its number and fields;
  \<open>UsageDone\<close>, \<open>UsageDel\<close>, \<open>UsageEdit\<close> the usage lines;
  \<open>NoPending\<close> "No hay tareas pendientes.";
  \<open>CompletedAll n\<close> "n tareas completadas.";
  \<open>NotANumber\<close> "ID debe ser un numero.";
  \<open>NotFound n\<close> "Tarea #n no encontrada.";
  \<open>Completed t\<close> "t completada."; \<open>Deleted t\<close> "t eliminada.";
  \<open>InvalidField f\<close> "Campo 'f' no valido. ...";
  \<open>Updated n f v\<close> "Tarea #n actualizada: f -> v";
  \<open>NothingToUndo\<close> "Nada que deshacer.";
  \<open>Restored\<close> "Tarea restaurada."; \<open>RestoredAll n\<close> "n tareas restauradas.";
  \<open>RestoredDeleted t\<close> "t restaurada."; \<open>EditReverted\<close> "Edicion revertida.".
  A handler returns the new state with the message, or with the exception that left it.
\<close>

datatype reply =
    NoReply
  | TitleRequired
  | Created int parsed
  | UsageDone
  | NoPending
  | CompletedAll nat
  | NotANumber
  | NotFound int
  | Completed string
  | UsageDel
  | Deleted string
  | UsageEdit
  | InvalidField string
  | Updated int string string
  | NothingToUndo
  | Restored
  | RestoredAll nat
  | RestoredDeleted string
  | EditReverted

definition handle_message :: "int \<Rightarrow> string \<Rightarrow> state \<Rightarrow> state \<times> (py_error + reply)" where
  "handle_message uid msg st =
     (let text = strip msg in
      if text = [] then (st, Inr NoReply)
      else
        (let p = parse_task text in
         if title p = [] then (st, Inr TitleRequired)
         else
           (let tid = next_available_id uid st;
                rid = next_row_id st;
                row = \<lparr>title = title p, tag = tag p, project = project p,
                       priority_str = priority_str p, date_str = date_str p,
                       row_id = rid, user_id = uid, task_id = tid, done = False,
                       score = None\<rparr>
            in (st\<lparr>tasks := sb_insert row (tasks st), next_row_id := rid + 1,
                    bot_data := (bot_data st)(uid \<mapsto> UCreate rid)\<rparr>,
                Inr (Created tid p)))))"

definition cmd_done :: "(string \<Rightarrow> string \<Rightarrow> bool) \<Rightarrow> date \<Rightarrow> int \<Rightarrow> string list \<Rightarrow> state \<Rightarrow> state \<times> (py_error + reply)" where
  "cmd_done ilike today uid args st =
     (case args of
        [] \<Rightarrow> (st, Inr UsageDone)
      | a # _ \<Rightarrow>
          (if lower a = ''all'' then
             (case get_tasks ilike today uid None None st of
                Inl e \<Rightarrow> (st, Inl e)
              | Inr ts \<Rightarrow>
                  (if ts = [] then (st, Inr NoPending)
                   else (st\<lparr>tasks := foldl (\<lambda>tbl t. sb_update_done (row_id t) True tbl) (tasks st) ts,
                            bot_data := (bot_data st)(uid \<mapsto> UDoneAll (map row_id ts))\<rparr>,
                         Inr (CompletedAll (length ts)))))
           else
             (case py_int a of
                None \<Rightarrow> (st, Inr NotANumber)
              | Some tid \<Rightarrow>
                  (case select_active uid tid (tasks st) of
                     [] \<Rightarrow> (st, Inr (NotFound tid))
                   | r # _ \<Rightarrow>
                       (st\<lparr>tasks := sb_update_done (row_id r) True (tasks st),
                           bot_data := (bot_data st)(uid \<mapsto> UDone (row_id r))\<rparr>,
                        Inr (Completed (title r)))))))"


definition field_map :: "(string \<times> column) list" where
  "field_map = [(''title'', title_col), (''tag'', tag_col), (''project'', project_col),
                (''priority'', priority_str_col), (''date'', date_str_col)]"

text \<open>\<^verbatim>\<open>{db_field: value}\<close> and \<^verbatim>\<open>{db_field: row[db_field]}\<close>.\<close>

definition new_col :: "column \<Rightarrow> string \<Rightarrow> col" where
  "new_col c v =
     (case c of
        title_col \<Rightarrow> Title v
      | tag_col \<Rightarrow> Tag (Some v)
      | project_col \<Rightarrow> Project (Some v)
      | priority_str_col \<Rightarrow> PriorityStr (Some v)
      | date_str_col \<Rightarrow> DateStr (Some v))"

definition old_col :: "column \<Rightarrow> task \<Rightarrow> col" where
  "old_col c r =
     (case c of
        title_col \<Rightarrow> Title (title r)
      | tag_col \<Rightarrow> Tag (tag r)
      | project_col \<Rightarrow> Project (project r)
      | priority_str_col \<Rightarrow> PriorityStr (priority_str r)
      | date_str_col \<Rightarrow> DateStr (date_str r))"

text \<open>\<^verbatim>\<open>" ".join(ctx.args[2:])\<close>\<close>

fun join_sp :: "string list \<Rightarrow> string" where
  "join_sp [] = []"
| "join_sp [w] = w"
| "join_sp (w # ws) = w @ '' '' @ join_sp ws"

definition cmd_edit :: "int \<Rightarrow> string list \<Rightarrow> state \<Rightarrow> state \<times> (py_error + reply)" where
  "cmd_edit uid args st =
     (if length args < 3 then (st, Inr UsageEdit)
      else
        (case py_int (args ! 0) of
           None \<Rightarrow> (st, Inr NotANumber)
         | Some tid \<Rightarrow>
             (let field = lower (args ! 1);
                  v = join_sp (drop 2 args)
              in case select_active uid tid (tasks st) of
                   [] \<Rightarrow> (st, Inr (NotFound tid))
                 | r # _ \<Rightarrow>
                     (case map_of field_map field of
                        None \<Rightarrow> (st, Inr (InvalidField field))
                      | Some db_field \<Rightarrow>
                          (let update_data = new_col db_field (if field = ''tag'' then upper v else v)
                           in (st\<lparr>bot_data := (bot_data st)(uid \<mapsto> UEdit (row_id r) (old_col db_field r)),
                                   tasks := sb_update (row_id r) update_data (tasks st)\<rparr>,
                               Inr (Updated tid field v)))))))"

text \<open>
  \<^verbatim>\<open>cmd_undo\<close> takes the slot out first (\<^verbatim>\<open>pop\<close>). It has branches for the actions
  \<^verbatim>\<open>done\<close>, \<^verbatim>\<open>done_all\<close>, \<^verbatim>\<open>delete\<close> and \<^verbatim>\<open>edit\<close>; for \<^verbatim>\<open>create\<close> no branch is taken
  and nothing is sent. In the \<^verbatim>\<open>delete\<close> branch the statement \<^verbatim>\<open>data.pop("_score", None)\<close>
  stands one column to the left of its neighbours in the source; it is read as the
  second statement of that branch.
\<close>

definition cmd_undo :: "int \<Rightarrow> state \<Rightarrow> state \<times> (py_error + reply)" where
  "cmd_undo uid st =
     (case bot_data st uid of
        None \<Rightarrow> (st, Inr NothingToUndo)
      | Some u \<Rightarrow>
          (let st' = st\<lparr>bot_data := (bot_data st)(uid := None)\<rparr> in
           case u of
             UDone rid \<Rightarrow> (st'\<lparr>tasks := sb_update_done rid False (tasks st')\<rparr>, Inr Restored)
           | UDoneAll rids \<Rightarrow>
               (st'\<lparr>tasks := foldl (\<lambda>tbl rid. sb_update_done rid False tbl) (tasks st') rids\<rparr>,
                Inr (RestoredAll (length rids)))
           | UDelete data \<Rightarrow>
               (let data = data\<lparr>score := None\<rparr>
                in (st'\<lparr>tasks := sb_insert data (tasks st')\<rparr>, Inr (RestoredDeleted (title data))))
           | UEdit rid c \<Rightarrow> (st'\<lparr>tasks := sb_update rid c (tasks st')\<rparr>, Inr EditReverted)
           | UCreate rid \<Rightarrow> (st', Inr NoReply)))"

section \<open>Notions used to state the properties\<close>

text \<open>
  The score of a row whose score is defined, and the row as \<^verbatim>\<open>get_tasks\<close> returns it,
  with \<^verbatim>\<open>_score\<close> set.
\<close>

definition total_score :: "date \<Rightarrow> task \<Rightarrow> int" where
  "total_score today r =
     (case calc_total_score today (tag r) (priority_str r) (date_str r) of
        Inr v \<Rightarrow> v | Inl _ \<Rightarrow> 0)"

definition with_score :: "date \<Rightarrow> task \<Rightarrow> task" where
  "with_score today r = r\<lparr>score := Some (total_score today r)\<rparr>"

text \<open>
  The scoring rules in the words of the specification: the tag weights, and the date
  value by the number of days from today to the due date.
\<close>

definition spec_tag_weight :: "string option \<Rightarrow> int" where
  "spec_tag_weight tg =
     (if tg = Some ''FGR'' then 3 else if tg = Some ''CETS'' then 3
      else if tg = Some ''CS'' then 2 else 0)"

definition spec_date_value :: "date \<Rightarrow> string option \<Rightarrow> int" where
  "spec_date_value today ds =
     (case ds of
        None \<Rightarrow> 0
      | Some s \<Rightarrow>
          (case strptime_ddmmyy s of
             None \<Rightarrow> 0
           | Some d \<Rightarrow>
               (if toordinal d - toordinal today \<le> 3 then 3
                else if toordinal d - toordinal today \<le> 15 then 2
                else 1)))"

text \<open>
  The token grammar in declarative form. A token is a piece of text of the given
  shape together with the value it stands for: a tag is \<^verbatim>\<open>@\<close> and a run of
  non-whitespace, its value the run in upper case; a project is \<^verbatim>\<open>|e\<close> or \<^verbatim>\<open>|E\<close>,
  whitespace, and a run of non-whitespace; a priority is \<^verbatim>\<open>|p\<close>, whitespace, one of
  \<^verbatim>\<open>UuNn\<close>, whitespace, and a digit, its value the letter in upper case and the digit;
  a due date is \<^verbatim>\<open>|f\<close>, whitespace, and six digits. Whitespace may be empty.
\<close>

definition all_space :: "string \<Rightarrow> bool" where
  "all_space ws = list_all is_space ws"




definition priority_token :: "string \<Rightarrow> string \<Rightarrow> bool" where
  "priority_token tok v =
     (\<exists>ws1 l ws2 d. tok = ''|p'' @ ws1 @ [l] @ ws2 @ [d] \<and> all_space ws1
         \<and> l \<in> set ''UuNn'' \<and> all_space ws2 \<and> is_digit d \<and> v = [upper_char l, d])"



text \<open>
  \<open>takes token whole_run raw field raw'\<close>: what one extraction does to the text
  \<open>raw\<close>. Either the text holds no token, the field is \<open>None\<close> and the text is
  unchanged; or the field is the value of the leftmost token of the text (no token
  starts before it), and \<open>raw'\<close> is the text without that one token. With
  \<open>whole_run\<close> the token ends where its run of non-whitespace ends.
\<close>

definition takes :: "(string \<Rightarrow> string \<Rightarrow> bool) \<Rightarrow> bool \<Rightarrow> string \<Rightarrow> string option \<Rightarrow> string \<Rightarrow> bool" where
  "takes token whole_run raw field raw' =
     (case field of
        None \<Rightarrow> raw' = raw \<and> \<not> (\<exists>pre tok v post. raw = pre @ tok @ post \<and> token tok v)
      | Some v \<Rightarrow>
          (\<exists>pre tok post. raw = pre @ tok @ post \<and> token tok v \<and> raw' = pre @ post
             \<and> (whole_run \<longrightarrow> post = [] \<or> is_space (hd post))
             \<and> \<not> (\<exists>p1 p2 tok' v' post'. pre = p1 @ p2 \<and> p2 \<noteq> []
                      \<and> p2 @ tok @ post = tok' @ post' \<and> token tok' v')))"

text \<open>A matcher \<open>m\<close> with the value \<open>f\<close> of its groups decides a token shape.\<close>

definition matches :: "(string \<Rightarrow> ('g \<times> string) option) \<Rightarrow> ('g \<Rightarrow> string) \<Rightarrow> (string \<Rightarrow> string \<Rightarrow> bool) \<Rightarrow> bool \<Rightarrow> bool" where
  "matches m f token whole_run =
     (\<forall>rest. (case m rest of
                None \<Rightarrow> \<not> (\<exists>tok v post. rest = tok @ post \<and> token tok v)
              | Some (g, post) \<Rightarrow> (\<exists>tok. rest = tok @ post \<and> token tok (f g)
                                     \<and> (whole_run \<longrightarrow> post = [] \<or> is_space (hd post)))))"



section \<open>The extractions in any order\<close>


















section \<open>Example data\<close>

definition st_init :: state where
  "st_init = \<lparr>tasks = [], next_row_id = 1, bot_data = (\<lambda>_. None)\<rparr>"

definition today_ex :: date where
  "today_ex = \<lparr>year = 2026, month = 2, day = 10\<rparr>"

definition st_one :: state where
  "st_one = fst (handle_message 7 ''Revisar doc @FGR |e Sellout |pU2 |f150226'' st_init)"

definition st_two :: state where
  "st_two = fst (handle_message 7 ''Revisar doc @FGR |e Sellout |pU2 |f150226''
              (fst (handle_message 7 ''Comprar pan |pN1'' st_init)))"

definition st_13 :: state where
  "st_13 = fst (cmd_done (\<lambda>_ _. False) today_ex 7 [''2'']
             (fst (handle_message 7 ''c''
               (fst (handle_message 7 ''b''
                 (fst (handle_message 7 ''a'' st_init)))))))"

definition st_bad :: state where
  "st_bad = fst (cmd_edit 7 [''1'', ''priority'', ''X''] st_one)"


section \<open>Evaluation of the example data\<close>

lemma st_one_tasks:
  "tasks st_one =
     [\<lparr>title = ''Revisar doc'', tag = Some ''FGR'', project = Some ''Sellout'',
       priority_str = Some ''U2'', date_str = Some ''150226'',
       row_id = 1, user_id = 7, task_id = 1, done = False, score = None\<rparr>]"
  unfolding st_one_def st_init_def by code_simp

lemma st_one_slot: "bot_data st_one 7 = Some (UCreate 1)"
  unfolding st_one_def st_init_def by code_simp

lemma py_int_5: "py_int ''5'' = Some 5"
  by code_simp

section \<open>The parser\<close>

lemma re_search_SomeD:
  "re_search m s = Some (pre, g, post) \<Longrightarrow>
     \<exists>rest. s = pre @ rest \<and> m rest = Some (g, post)
        \<and> (\<forall>p1 p2. pre = p1 @ p2 \<and> p2 \<noteq> [] \<longrightarrow> m (p2 @ rest) = None)"
proof (induction s arbitrary: pre)
  case Nil
  then show ?case by (auto split: option.splits)
next
  case (Cons c s)
  show ?case
  proof (cases "m (c # s)")
    case (Some a)
    with Cons.prems show ?thesis by (auto split: option.splits)
  next
    case None
    with Cons.prems obtain pre' where r: "re_search m s = Some (pre', g, post)" and p: "pre = c # pre'"
      by (auto split: option.splits)
    from Cons.IH [OF r] obtain rest where
      s: "s = pre' @ rest" and m: "m rest = Some (g, post)"
      and e: "\<forall>p1 p2. pre' = p1 @ p2 \<and> p2 \<noteq> [] \<longrightarrow> m (p2 @ rest) = None"
      by blast
    have "m (p2 @ rest) = None" if "pre = p1 @ p2" "p2 \<noteq> []" for p1 p2
    proof (cases p1)
      case Nil
      with that p have "p2 @ rest = c # s" by (simp add: s)
      with None show ?thesis by simp
    next
      case (Cons a p1')
      with that p have "pre' = p1' @ p2" by simp
      with e that show ?thesis by blast
    qed
    with s m p show ?thesis by auto
  qed
qed

lemma re_search_NoneD:
  "re_search m s = None \<Longrightarrow> s = pre @ rest \<Longrightarrow> m rest = None"
proof (induction s arbitrary: pre)
  case Nil
  then show ?case by (auto split: option.splits)
next
  case (Cons c s)
  from Cons.prems(1) have a: "m (c # s) = None" and b: "re_search m s = None"
    by (auto split: option.splits)
  show ?case
  proof (cases pre)
    case Nil
    with Cons.prems a show ?thesis by simp
  next
    case (Cons a pre')
    with Cons.prems have "s = pre' @ rest" by simp
    from Cons.IH [OF b this] show ?thesis .
  qed
qed

lemma matches_NoneD:
  "matches m f token whole_run \<Longrightarrow> m (tok @ post) = None \<Longrightarrow> \<not> token tok v"
proof -
  assume a: "matches m f token whole_run" and n: "m (tok @ post) = None"
  from a have "case m (tok @ post) of
                None \<Rightarrow> \<not> (\<exists>tok' v post'. tok @ post = tok' @ post' \<and> token tok' v)
              | Some (g, post') \<Rightarrow> (\<exists>tok'. tok @ post = tok' @ post' \<and> token tok' (f g)
                                     \<and> (whole_run \<longrightarrow> post' = [] \<or> is_space (hd post')))"
    unfolding matches_def by (rule spec)
  with n show ?thesis by auto
qed

lemma matches_SomeD:
  "matches m f token whole_run \<Longrightarrow> m rest = Some (g, post) \<Longrightarrow>
     \<exists>tok. rest = tok @ post \<and> token tok (f g) \<and> (whole_run \<longrightarrow> post = [] \<or> is_space (hd post))"
proof -
  assume a: "matches m f token whole_run" and n: "m rest = Some (g, post)"
  from a have "case m rest of
                None \<Rightarrow> \<not> (\<exists>tok' v post'. rest = tok' @ post' \<and> token tok' v)
              | Some (g, post') \<Rightarrow> (\<exists>tok'. rest = tok' @ post' \<and> token tok' (f g)
                                     \<and> (whole_run \<longrightarrow> post' = [] \<or> is_space (hd post')))"
    unfolding matches_def by (rule spec)
  with n show ?thesis by simp
qed

lemma takes_search:
  assumes "matches m f token whole_run"
  shows "takes token whole_run raw
           (case re_search m raw of None \<Rightarrow> None | Some (pre, g, post) \<Rightarrow> Some (f g))
           (case re_search m raw of None \<Rightarrow> raw | Some (pre, g, post) \<Rightarrow> pre @ post)"
proof (cases "re_search m raw")
  case None
  have "\<not> token tok v" if "raw = pre @ tok @ post" for pre tok v post
    using matches_NoneD [OF assms re_search_NoneD [OF None that]] .
  with None show ?thesis by (auto simp: takes_def)
next
  case (Some a)
  obtain pre g post where a: "a = (pre, g, post)" by (cases a)
  from re_search_SomeD [OF Some [unfolded a]] obtain rest where
    s: "raw = pre @ rest" and m: "m rest = Some (g, post)"
    and e: "\<forall>p1 p2. pre = p1 @ p2 \<and> p2 \<noteq> [] \<longrightarrow> m (p2 @ rest) = None" by blast
  from matches_SomeD [OF assms m] obtain tok where
    t: "rest = tok @ post" "token tok (f g)" "whole_run \<longrightarrow> post = [] \<or> is_space (hd post)"
    by blast
  have n: "\<not> (\<exists>p1 p2 tok' v' post'. pre = p1 @ p2 \<and> p2 \<noteq> []
                 \<and> p2 @ tok @ post = tok' @ post' \<and> token tok' v')"
  proof
    assume "\<exists>p1 p2 tok' v' post'. pre = p1 @ p2 \<and> p2 \<noteq> []
                 \<and> p2 @ tok @ post = tok' @ post' \<and> token tok' v'"
    then obtain p1 p2 tok' v' post' where
      h: "pre = p1 @ p2" "p2 \<noteq> []" "p2 @ tok @ post = tok' @ post'" "token tok' v'" by blast
    from e h(1,2) have "m (p2 @ rest) = None" by blast
    then have "m (tok' @ post') = None" using h(3) t(1) by simp
    from matches_NoneD [OF assms this] h(4) show False by blast
  qed
  have "takes token whole_run raw (Some (f g)) (pre @ post)"
    unfolding takes_def option.case
    by (intro exI [of _ pre] exI [of _ tok] exI [of _ post] conjI) (use s t n in simp_all)
  with Some a show ?thesis by simp
qed






lemma dropWhile_ws_char:
  "all_space ws \<Longrightarrow> \<not> is_space c \<Longrightarrow> dropWhile is_space (ws @ c # post) = c # post"
  by (auto simp: all_space_def list_all_iff dropWhile_append2)

lemma takeWhile_all_space: "all_space (takeWhile is_space s)"
  unfolding all_space_def list_all_iff by (auto dest: set_takeWhileD)




lemma digit_not_space: "is_digit c \<Longrightarrow> \<not> is_space c"
  by (auto simp: is_digit_def is_space_def Let_def)

lemma letter_not_space: "l \<in> set ''UuNn'' \<Longrightarrow> \<not> is_space l"
  by (auto simp: is_space_def)

lemma dropWhile_space_split: "dropWhile is_space s = r \<Longrightarrow> s = takeWhile is_space s @ r"
  by auto

lemma matches_priority:
  "matches m_priority (\<lambda>(l, d). upper [l] @ [d]) priority_token False"
  unfolding matches_def
proof
  fix rest
  show "case m_priority rest of
          None \<Rightarrow> \<not> (\<exists>tok v post. rest = tok @ post \<and> priority_token tok v)
        | Some (g, post) \<Rightarrow> (\<exists>tok. rest = tok @ post
                               \<and> priority_token tok ((\<lambda>(l, d). upper [l] @ [d]) g)
                               \<and> (False \<longrightarrow> post = [] \<or> is_space (hd post)))"
  proof (cases "m_priority rest")
    case None
    have False if "rest = tok @ post" "priority_token tok v" for tok v post
    proof -
      from that(2) obtain ws1 l ws2 d where
        r: "tok = CHR ''|'' # CHR ''p'' # ws1 @ l # ws2 @ [d]" "all_space ws1"
           "l \<in> set ''UuNn''" "all_space ws2" "is_digit d"
        by (auto simp: priority_token_def)
      have 1: "rest = CHR ''|'' # CHR ''p'' # (ws1 @ l # (ws2 @ d # post))"
        by (simp add: that(1) r(1))
      have 2: "dropWhile is_space (ws1 @ l # (ws2 @ d # post)) = l # (ws2 @ d # post)"
        by (rule dropWhile_ws_char [OF r(2) letter_not_space [OF r(3)]])
      have 3: "dropWhile is_space (ws2 @ d # post) = d # post"
        by (rule dropWhile_ws_char [OF r(4) digit_not_space [OF r(5)]])
      from None show False unfolding 1 using r(3,5) by (simp add: 2 3)
    qed
    with None show ?thesis by auto
  next
    case (Some a)
    obtain l d post where a: "a = ((l, d), post)" by (cases a) auto
    from Some a obtain s s' where
      r: "rest = CHR ''|'' # CHR ''p'' # s" "dropWhile is_space s = l # s'" "l \<in> set ''UuNn''"
         "dropWhile is_space s' = d # post" "is_digit d"
      by (cases rest rule: m_priority.cases) (auto split: if_splits list.splits)
    have "s = takeWhile is_space s @ l # takeWhile is_space s' @ d # post"
      using dropWhile_space_split [OF r(2)] dropWhile_space_split [OF r(4)] by simp
    then have "rest = (CHR ''|'' # CHR ''p'' # takeWhile is_space s @ l # takeWhile is_space s' @ [d]) @ post"
      by (simp add: r(1))
    moreover have "priority_token (CHR ''|'' # CHR ''p'' # takeWhile is_space s @ l # takeWhile is_space s' @ [d])
                     (upper [l] @ [d])"
      unfolding priority_token_def
      by (intro exI [of _ "takeWhile is_space s"] exI [of _ l] exI [of _ "takeWhile is_space s'"]
                exI [of _ d])
         (use r(3,5) takeWhile_all_space in \<open>auto simp: upper_def\<close>)
    ultimately show ?thesis using Some a by auto
  qed
qed



lemma rstrip_Nil [simp]: "rstrip [] = []"
  by (simp add: rstrip_def)















lemma extract_priority_takes:
  "takes priority_token False raw (fst (extract_priority raw)) (snd (extract_priority raw))"
  using takes_search [OF matches_priority, of raw]
  by (auto simp: extract_priority_def split: option.splits)


lemma parse_task_steps:
  "parse_task text =
     \<lparr>title = strip (collapse (snd (extract_date (snd (extract_priority
                 (snd (extract_project (snd (extract_tag (strip text)))))))))),
      tag = fst (extract_tag (strip text)),
      project = fst (extract_project (snd (extract_tag (strip text)))),
      priority_str = fst (extract_priority (snd (extract_project (snd (extract_tag (strip text)))))),
      date_str = fst (extract_date (snd (extract_priority
                   (snd (extract_project (snd (extract_tag (strip text))))))))\<rparr>"
  by (simp add: parse_task_def Let_def split: prod.splits)




section \<open>The order of the extractions\<close>














































section \<open>Undo\<close>

text \<open>
  Claim C5. With an empty slot for the owner, \<^verbatim>\<open>cmd_undo\<close> returns the state it was
  given and answers "nothing to undo". Whatever the slot held, after one
  \<^verbatim>\<open>cmd_undo\<close> the owner's slot is empty, so a second \<^verbatim>\<open>cmd_undo\<close> right after it
  changes nothing and gives that same answer.
\<close>

theorem cmd_undo_one_shot:
  "(bot_data st uid = None \<longrightarrow> cmd_undo uid st = (st, Inr NothingToUndo))
   \<and> bot_data (fst (cmd_undo uid st)) uid = None
   \<and> cmd_undo uid (fst (cmd_undo uid st)) = (fst (cmd_undo uid st), Inr NothingToUndo)"
  by (auto simp: cmd_undo_def Let_def split: option.splits undo.splits)

theorem cmd_undo_one_shot_witness:
  "cmd_undo 7 st_init = (st_init, Inr NothingToUndo)
   \<and> cmd_undo 7 (fst (cmd_undo 7 st_one)) = (fst (cmd_undo 7 st_one), Inr NothingToUndo)
   \<and> bot_data st_one 7 = Some (UCreate 1)"
proof -
  have e: "bot_data st_init 7 = None" by (simp add: st_init_def)
  from cmd_undo_one_shot [of st_init 7] e cmd_undo_one_shot [of st_one 7] st_one_slot
  show ?thesis by simp
qed

section \<open>Edit\<close>

text \<open>
  Claim C8. When \<^verbatim>\<open>cmd_edit\<close> is given a task number that selects no active task of
  the owner, it answers "not found" and returns the state unchanged: the table and
  every undo slot are as before.
\<close>

theorem cmd_edit_not_found:
  "3 \<le> length args \<Longrightarrow> py_int (args ! 0) = Some tid
     \<Longrightarrow> select_active uid tid (tasks st) = []
     \<Longrightarrow> cmd_edit uid args st = (st, Inr (NotFound tid))"
  by (simp add: cmd_edit_def Let_def)

theorem cmd_edit_not_found_witness:
  "cmd_edit 7 [''5'', ''title'', ''Nuevo''] st_one = (st_one, Inr (NotFound 5))"
proof -
  have a: "py_int ([''5'', ''title'', ''Nuevo''] ! 0) = Some 5" using py_int_5 by simp
  have b: "select_active 7 5 (tasks st_one) = []" by (simp add: st_one_tasks select_active_def)
  show ?thesis using cmd_edit_not_found [OF _ a b] by simp
qed

section \<open>Delete and undo\<close>




section \<open>The score formula\<close>

lemma strip_single: "\<not> is_space c \<Longrightarrow> strip [c] = [c]"
  by (simp add: strip_def lstrip_def rstrip_def)

lemma py_int_digit: "is_digit m \<Longrightarrow> py_int [m] = Some (digit_val m)"
proof -
  assume d: "is_digit m"
  then have "m \<noteq> CHR ''-''" "m \<noteq> CHR ''+''" by (auto simp: is_digit_def)
  then show ?thesis
    using d by (simp add: py_int_def strip_single digit_not_space dec_def)
qed

lemma strptime_examples:
  "strptime_ddmmyy ''150226'' = Some \<lparr>year = 2026, month = 2, day = 15\<rparr>"
  "strptime_ddmmyy ''290224'' = Some \<lparr>year = 2024, month = 2, day = 29\<rparr>"
  "strptime_ddmmyy ''310226'' = None"
  "strptime_ddmmyy ''311299'' = Some \<lparr>year = 1999, month = 12, day = 31\<rparr>"
  "strptime_ddmmyy ''000000'' = None"
  "strptime_ddmmyy ''1226'' = Some \<lparr>year = 2026, month = 2, day = 1\<rparr>"
  "strptime_ddmmyy ''15/02/26'' = None"
  by code_simp+

lemma calc_date_value_examples:
  "calc_date_value today_ex (Some ''100226'') = 3"
  "calc_date_value today_ex (Some ''010126'') = 3"
  "calc_date_value today_ex (Some ''130226'') = 3"
  "calc_date_value today_ex (Some ''140226'') = 2"
  "calc_date_value today_ex (Some ''250226'') = 2"
  "calc_date_value today_ex (Some ''260226'') = 1"
  "calc_date_value today_ex (Some ''manana'') = 0"
  unfolding today_ex_def by code_simp+

lemma strptime_empty: "strptime_ddmmyy [] = None"
  by (simp add: strptime_ddmmyy_def re_d_def)

lemma calc_date_value_spec: "calc_date_value today ds = spec_date_value today ds"
  by (auto simp: calc_date_value_def spec_date_value_def Let_def strptime_empty
           split: option.splits)

lemma tag_val_spec:
  "(case tg of None \<Rightarrow> 0
     | Some t \<Rightarrow> (if t = [] then 0 else (case map_of TAG_VALUES t of Some v \<Rightarrow> v | None \<Rightarrow> 0)))
   = spec_tag_weight tg"
  by (cases tg) (auto simp: TAG_VALUES_def spec_tag_weight_def)

text \<open>
  Claim C2. The total score is the tag weight plus the priority value plus the date
  value: weight 3 for FGR and CETS, 2 for CS, 0 otherwise; priority 0 when absent,
  else +1 for U or -1 for N plus the digit; date value 0 when absent or not a date,
  3 up to three days ahead (or overdue), 2 up to fifteen days, 1 beyond. The task
  FGR, U2, due 150226 scores 8 on 2026-02-10.
\<close>

theorem calc_total_score_formula:
  "calc_total_score today tg None ds
     = Inr (spec_tag_weight tg + 0 + spec_date_value today ds)
   \<and> (is_digit m \<longrightarrow>
        calc_total_score today tg (Some [CHR ''U'', m]) ds
          = Inr (spec_tag_weight tg + (1 + digit_val m) + spec_date_value today ds)
      \<and> calc_total_score today tg (Some [CHR ''N'', m]) ds
          = Inr (spec_tag_weight tg + (- 1 + digit_val m) + spec_date_value today ds))
   \<and> calc_total_score \<lparr>year = 2026, month = 2, day = 10\<rparr>
        (Some ''FGR'') (Some ''U2'') (Some ''150226'') = Inr 8"
proof -
  have ex: "calc_total_score \<lparr>year = 2026, month = 2, day = 10\<rparr>
        (Some ''FGR'') (Some ''U2'') (Some ''150226'') = Inr 8"
    by code_simp
  show ?thesis
    unfolding calc_total_score_def Let_def tag_val_spec calc_date_value_spec
    using ex [unfolded calc_total_score_def Let_def tag_val_spec calc_date_value_spec]
    by (simp add: calc_priority_value_def py_int_digit)
qed

theorem calc_total_score_formula_witness:
  "calc_total_score today_ex (Some ''CS'') (Some ''N3'') (Some ''010326'') = Inr 5
   \<and> calc_total_score today_ex None (Some ''N1'') None = Inr 0"
proof -
  have d3: "is_digit CHR ''3''" and d1: "is_digit CHR ''1''" by (simp_all add: is_digit_def)
  have v: "spec_date_value today_ex (Some ''010326'') = 1" "spec_date_value today_ex None = 0"
    unfolding today_ex_def by code_simp+
  have w: "spec_tag_weight (Some ''CS'') = 2" "spec_tag_weight None = 0" by code_simp+
  have dv: "digit_val CHR ''3'' = 3" "digit_val CHR ''1'' = 1" by code_simp+
  from calc_total_score_formula [of today_ex "Some ''CS''" "Some ''010326''" "CHR ''3''"]
       calc_total_score_formula [of today_ex None None "CHR ''1''"] d3 d1
  show ?thesis by (simp add: v w dv)
qed

section \<open>Task numbers\<close>

text \<open>
  What \<^verbatim>\<open>next_available_id\<close> computes: the smallest number from 1 to 99 that no row
  of the owner has, completed rows included, and 99 when there is none.
\<close>

lemma next_available_id_smallest_unused:
  "next_available_id uid st =
     (if {i \<in> {1..99}. i \<notin> task_id ` {r \<in> set (tasks st). user_id r = uid}} = {} then 99
      else Min {i \<in> {1..99}. i \<notin> task_id ` {r \<in> set (tasks st). user_id r = uid}})"
proof -
  define used where "used = task_id ` {r \<in> set (tasks st). user_id r = uid}"
  define S where "S = {i \<in> {1..99}. i \<notin> used}"
  have u: "set (map task_id (filter (\<lambda>r. user_id r = uid) (tasks st))) = used"
    by (auto simp: used_def)
  have n: "next_available_id uid st =
             (case find (\<lambda>i. i \<notin> used) [1..99] of Some i \<Rightarrow> i | None \<Rightarrow> 99)"
    unfolding next_available_id_def Let_def u ..
  show ?thesis
  proof (cases "find (\<lambda>i. i \<notin> used) [1..99]")
    case None
    then have "S = {}" by (auto simp: find_None_iff S_def)
    with None n show ?thesis by (simp add: S_def used_def)
  next
    case (Some i)
    then obtain k where k: "k < length [1..99::int]" "[1..99] ! k \<notin> used" "i = [1..99] ! k"
      "\<forall>j<k. [1..99::int] ! j \<in> used"
      unfolding find_Some_iff by blast
    from k(1) have kl: "k < 99" by simp
    then have ik: "i = 1 + int k" using k(3) by (simp add: nth_upto)
    have iS: "i \<in> S" using k(2,3) kl ik by (simp add: S_def)
    have "\<And>y. y \<in> S \<Longrightarrow> i \<le> y"
    proof (rule ccontr)
      fix y assume that: "y \<in> S"
      assume "\<not> i \<le> y"
      with that have y: "1 \<le> y" "y < i" "y \<notin> used" by (simp_all add: S_def)
      define j where "j = nat (y - 1)"
      have "j < k" using y ik by (simp add: j_def)
      moreover have "[1..99::int] ! j = y" using y ik kl by (simp add: j_def nth_upto)
      ultimately show False using k(4) y(3) by auto
    qed
    have "finite S" by (rule finite_subset [of _ "{1..99}"]) (auto simp: S_def)
    with iS \<open>\<And>y. y \<in> S \<Longrightarrow> i \<le> y\<close> have "Min S = i" by (intro Min_eqI)
    with iS Some n show ?thesis by (auto simp: S_def used_def)
  qed
qed

text \<open>
  Claim C1. \<^verbatim>\<open>next_available_id\<close> reads every row of the owner, completed ones
  included. After three tasks are created and number 2 is completed, the owner's
  active numbers are 1 and 3, and the next task gets number 4, not 2.
\<close>

theorem next_available_id_counts_completed:
  "map task_id (filter (\<lambda>r. user_id r = 7 \<and> \<not> done r) (tasks st_13)) = [1, 3]
   \<and> map task_id (filter (\<lambda>r. user_id r = 7 \<and> done r) (tasks st_13)) = [2]
   \<and> next_available_id 7 st_13 = 4
   \<and> map task_id (tasks (fst (handle_message 7 ''d'' st_13))) = [1, 2, 3, 4]"
  unfolding st_13_def st_init_def today_ex_def by code_simp

section \<open>Scores of stored rows\<close>

text \<open>
  A priority that \<^verbatim>\<open>parse_task\<close> returns is an upper-case U or N and a digit, so the
  score of a task as it is created is defined.
\<close>

lemma parse_task_priority_shape:
  "priority_str (parse_task text) = None
   \<or> (\<exists>l d. priority_str (parse_task text) = Some [upper_char l, d] \<and> l \<in> set ''UuNn'' \<and> is_digit d)"
proof (cases "priority_str (parse_task text)")
  case None
  then show ?thesis by simp
next
  case (Some v)
  define raw where "raw = snd (extract_project (snd (extract_tag (strip text))))"
  have "priority_str (parse_task text) = fst (extract_priority raw)"
    unfolding raw_def parse_task_steps by simp
  with Some extract_priority_takes [of raw]
  obtain tok where "priority_token tok v" by (auto simp: takes_def)
  with Some show ?thesis by (auto simp: priority_token_def)
qed

lemma parse_task_score_defined:
  "\<exists>v. calc_total_score today (tag (parse_task text)) (priority_str (parse_task text))
          (date_str (parse_task text)) = Inr v"
  using parse_task_priority_shape [of "text"]
  by (auto simp: calc_total_score_def calc_priority_value_def py_int_digit Let_def)

text \<open>
  Claim C10. \<^verbatim>\<open>cmd_edit\<close> stores the priority it is given as it is. After
  \<^verbatim>\<open>/edit 1 priority X\<close> the score of the row raises \<^verbatim>\<open>IndexError\<close>, and so does
  the listing; a priority whose second character is not a digit raises
  \<^verbatim>\<open>ValueError\<close>.
\<close>

theorem edit_priority_breaks_score:
  "snd (cmd_edit 7 [''1'', ''priority'', ''X''] st_one) = Inr (Updated 1 ''priority'' ''X'')
   \<and> map priority_str (tasks st_bad) = [Some ''X'']
   \<and> map (\<lambda>r. calc_total_score today_ex (tag r) (priority_str r) (date_str r)) (tasks st_bad)
        = [Inl IndexError]
   \<and> get_tasks (\<lambda>_ _. False) today_ex 7 None None st_bad = Inl IndexError
   \<and> calc_priority_value (Some ''alta'') = Inl ValueError"
  unfolding st_bad_def st_one_def st_init_def today_ex_def by code_simp

section \<open>The priority token\<close>

text \<open>
  Claim C7. The pattern takes any digit after the direction letter: the line
  \<^verbatim>\<open>Lavar ropa |pU9\<close> gets the priority code \<^verbatim>\<open>U9\<close>, worth 10.
\<close>

theorem parse_task_accepts_any_digit:
  "priority_str (parse_task ''Lavar ropa |pU9'') = Some ''U9''
   \<and> title (parse_task ''Lavar ropa |pU9'') = ''Lavar ropa''
   \<and> calc_priority_value (Some ''U9'') = Inr 10"
  by code_simp

section \<open>The order of the listing\<close>

lemma set_scores_defined:
  "\<forall>r \<in> set rs. \<exists>v. calc_total_score today (tag r) (priority_str r) (date_str r) = Inr v
     \<Longrightarrow> set_scores today rs = Inr (map (with_score today) rs)"
  by (induction rs) (auto simp: with_score_def total_score_def)

lemma total_score_with_score [simp]: "total_score today (with_score today r) = total_score today r"
  by (simp add: with_score_def total_score_def)

lemma score_key_with_score [simp]: "score_key (with_score today r) = total_score today r"
  by (simp add: with_score_def score_key_def)

lemma st_two_rows:
  "select_tasks (\<lambda>_ _. False) 7 None None (tasks st_two) =
     [\<lparr>title = ''Comprar pan'', tag = None, project = None,
       priority_str = Some ''N1'', date_str = None,
       row_id = 1, user_id = 7, task_id = 1, done = False, score = None\<rparr>,
      \<lparr>title = ''Revisar doc'', tag = Some ''FGR'', project = Some ''Sellout'',
       priority_str = Some ''U2'', date_str = Some ''150226'',
       row_id = 2, user_id = 7, task_id = 2, done = False, score = None\<rparr>]"
  unfolding st_two_def st_init_def by code_simp

lemma st_two_listing:
  "get_tasks (\<lambda>_ _. False) today_ex 7 None None st_two =
     Inr [\<lparr>title = ''Revisar doc'', tag = Some ''FGR'', project = Some ''Sellout'',
           priority_str = Some ''U2'', date_str = Some ''150226'',
           row_id = 2, user_id = 7, task_id = 2, done = False, score = Some 8\<rparr>,
          \<lparr>title = ''Comprar pan'', tag = None, project = None,
           priority_str = Some ''N1'', date_str = None,
           row_id = 1, user_id = 7, task_id = 1, done = False, score = Some 0\<rparr>]"
  unfolding st_two_def st_init_def today_ex_def by code_simp

text \<open>
  Claim C9. When every selected row has a score, \<^verbatim>\<open>get_tasks\<close> returns the selected
  rows, each with its score, in descending order of score; the rows of any one score
  are in the order in which the store returned them. A task scoring 8 comes before a
  task scoring 0.
\<close>

theorem get_tasks_sorted_stable:
  assumes "\<forall>r \<in> set (select_tasks ilike uid tg pj (tasks st)).
             \<exists>v. calc_total_score today (tag r) (priority_str r) (date_str r) = Inr v"
  shows "\<exists>out. get_tasks ilike today uid tg pj st = Inr out
           \<and> (\<forall>r \<in> set out. score r = Some (total_score today r))
           \<and> sorted_wrt (\<lambda>a b. total_score today a \<ge> total_score today b) out
           \<and> (\<forall>k. filter (\<lambda>r. total_score today r = k) out
                   = map (with_score today)
                       (filter (\<lambda>r. total_score today r = k)
                          (select_tasks ilike uid tg pj (tasks st))))"
proof -
  define rows where "rows = select_tasks ilike uid tg pj (tasks st)"
  define out where "out = sort_key (\<lambda>x. - score_key x) (map (with_score today) rows)"
  have g: "get_tasks ilike today uid tg pj st = Inr out"
    using set_scores_defined [OF assms]
    by (simp add: get_tasks_def sort_reverse_def out_def rows_def)
  have mem: "\<And>r. r \<in> set out \<Longrightarrow> \<exists>r0 \<in> set rows. r = with_score today r0"
    by (auto simp: out_def)
  have key: "score_key r = total_score today r" if "r \<in> set out" for r
    using mem [OF that] by auto
  have sc: "\<forall>r \<in> set out. score r = Some (total_score today r)"
  proof
    fix r assume "r \<in> set out"
    from mem [OF this] obtain r0 where r: "r = with_score today r0" by blast
    have "score (with_score today r0) = Some (total_score today r0)"
      by (simp add: with_score_def)
    then show "score r = Some (total_score today r)" by (simp add: r)
  qed
  have "sorted (map (\<lambda>x. - score_key x) out)"
    unfolding out_def by (rule sorted_sort_key)
  then have "sorted_wrt (\<lambda>a b. score_key a \<ge> score_key b) out"
    by (simp add: sorted_map)
  then have so: "sorted_wrt (\<lambda>a b. total_score today a \<ge> total_score today b) out"
    by (rule sorted_wrt_mono_rel [rotated]) (simp add: key)
  have st: "filter (\<lambda>r. total_score today r = k) out
              = map (with_score today) (filter (\<lambda>r. total_score today r = k) rows)" for k
  proof -
    have "filter (\<lambda>r. total_score today r = k) out = filter (\<lambda>r. - score_key r = - k) out"
      by (rule filter_cong) (auto simp: key)
    also have "\<dots> = filter (\<lambda>r. - score_key r = - k) (map (with_score today) rows)"
      unfolding out_def by (rule sort_key_stable)
    also have "\<dots> = map (with_score today) (filter (\<lambda>r. total_score today r = k) rows)"
      by (simp add: filter_map comp_def)
    finally show ?thesis .
  qed
  show ?thesis
    using g sc so st unfolding rows_def by blast
qed

theorem get_tasks_sorted_stable_witness:
  "\<exists>out. get_tasks (\<lambda>_ _. False) today_ex 7 None None st_two = Inr out
      \<and> sorted_wrt (\<lambda>a b. total_score today_ex a \<ge> total_score today_ex b) out
      \<and> map title out = [''Revisar doc'', ''Comprar pan'']
      \<and> map score out = [Some 8, Some 0]"
proof -
  have h: "\<forall>r \<in> set (select_tasks (\<lambda>_ _. False) 7 None None (tasks st_two)).
             \<exists>v. calc_total_score today_ex (tag r) (priority_str r) (date_str r) = Inr v"
  proof -
    have "calc_total_score today_ex None (Some ''N1'') None = Inr 0"
      "calc_total_score today_ex (Some ''FGR'') (Some ''U2'') (Some ''150226'') = Inr 8"
      unfolding today_ex_def by code_simp+
    then show ?thesis by (simp add: st_two_rows)
  qed
  from get_tasks_sorted_stable [OF h] obtain out where
    o: "get_tasks (\<lambda>_ _. False) today_ex 7 None None st_two = Inr out"
       "sorted_wrt (\<lambda>a b. total_score today_ex a \<ge> total_score today_ex b) out"
    by blast
  from o(1) st_two_listing have "map title out = [''Revisar doc'', ''Comprar pan'']"
     "map score out = [Some 8, Some 0]" by auto
  with o show ?thesis by (intro exI [of _ out] conjI)
qed

end
